theory Spec2Isabelle
  imports Complex_Main
begin

section \<open>Numbers\<close>

text \<open>
  The component computes on JavaScript numbers. They are modelled as rationals: every
  statement below is about the exact arithmetic of the formulas, not about the rounding
  of binary floating point.
\<close>

type_synonym number = rat

section \<open>Helpers imported from the math package\<close>

text \<open>
  Modelled from the spec: \<open>clamp\<close> of the imported math package (the package is a
  dependency, its text is not among the sources). The arguments are in the order of the
  call sites: the value, then the lower bound, then the upper bound.
\<close>

definition clamp :: "number \<Rightarrow> number \<Rightarrow> number \<Rightarrow> number" where
  "clamp v lo hi = max lo (min hi v)"

text \<open>
  Modelled from the spec: \<open>clamp01\<close> of the imported math package, the clamp to the
  unit interval (\<open>clamp(pos01_current + diff01, 0, 1)\<close> in the spec's step 4).
\<close>

definition clamp01 :: "number \<Rightarrow> number" where
  "clamp01 v = clamp v 0 1"

text \<open>
  Modelled from the spec: \<open>mapTo01Linear\<close> of the imported math package, the spec's
  \<open>toNormalized\<close> for the linear curve. A raw value outside the range is clamped, inside
  the range the position is \<open>(raw - min) / (max - min)\<close>.
\<close>

definition mapTo01Linear :: "number \<Rightarrow> number \<Rightarrow> number \<Rightarrow> number" where
  "mapTo01Linear v lo hi = (clamp v lo hi - lo) / (hi - lo)"

text \<open>
  Modelled from the spec: \<open>mapFrom01Linear\<close> of the imported math package, the spec's
  \<open>fromNormalized\<close> for the linear curve. The position is clamped to the unit interval
  first; the result is \<open>min + pos01 * (max - min)\<close>.
\<close>

definition mapFrom01Linear :: "number \<Rightarrow> number \<Rightarrow> number \<Rightarrow> number" where
  "mapFrom01Linear v lo hi = lo + clamp01 v * (hi - lo)"

section \<open>KnobHeadless: properties and defaults\<close>

datatype orientation = Horizontal | Vertical

datatype axis = X | Y | XY

text \<open>The result type of \<open>getDragAxis\<close>: \<open>'x' | 'y' | undefined\<close>, with \<open>undefined\<close> as \<open>None\<close>.\<close>

datatype dragAxis = DragX | DragY

type_synonym mapFn = "number \<Rightarrow> number \<Rightarrow> number \<Rightarrow> number"

text \<open>
  The properties of the component. An optional property is an \<open>option\<close>, \<open>None\<close> for
  \<open>undefined\<close>. The callback \<open>onValueRawChange\<close> is not a field: what the component does
  with it is the list of the values it is called with, which the handler returns.
\<close>

record KnobHeadlessProps =
  valueRaw :: number
  valueMin :: number
  valueMax :: number
  dragSensitivity :: number
  valueRawRoundFn :: "number \<Rightarrow> number"
  valueRawDisplayFn :: "number \<Rightarrow> string"
  orientation :: "orientation option"
  axis :: "axis option"
  includeIntoTabOrder :: "bool option"
  disabled :: "bool option"
  mapTo01 :: "mapFn option"
  mapFrom01 :: "mapFn option"

definition axisDefault :: axis where
  "axisDefault = Y"

definition includeIntoTabOrderDefault :: bool where
  "includeIntoTabOrderDefault = False"

definition disabledDefault :: bool where
  "disabledDefault = False"

definition mapTo01Default :: mapFn where
  "mapTo01Default = mapTo01Linear"

definition mapFrom01Default :: mapFn where
  "mapFrom01Default = mapFrom01Linear"

text \<open>A destructuring default \<open>name = d\<close>: the default replaces \<open>undefined\<close> only.\<close>

definition orDefault :: "'a option \<Rightarrow> 'a \<Rightarrow> 'a" where
  "orDefault v d = (case v of None \<Rightarrow> d | Some w \<Rightarrow> w)"

definition getTabIndex :: "bool \<Rightarrow> bool \<Rightarrow> int" where
  "getTabIndex includeIntoTabOrder' disabled' =
     (if \<not> disabled' \<and> includeIntoTabOrder' then 0 else - 1)"

definition getDragAxis :: "orientation option \<Rightarrow> axis \<Rightarrow> dragAxis option" where
  "getDragAxis orientation' axis' =
     (case orientation' of
        Some ori \<Rightarrow> (if ori = Horizontal then Some DragX else Some DragY)
      | None \<Rightarrow>
          (case axis' of XY \<Rightarrow> None | X \<Rightarrow> Some DragX | Y \<Rightarrow> Some DragY))"

definition getAriaOrientation :: "orientation option \<Rightarrow> axis \<Rightarrow> orientation option" where
  "getAriaOrientation orientation' axis' =
     (case orientation' of
        Some ori \<Rightarrow> Some ori
      | None \<Rightarrow>
          (if axis' = XY then None
           else if axis' = X then Some Horizontal else Some Vertical))"

section \<open>KnobHeadless: the drag handler\<close>

text \<open>
  The handler given to \<open>useDrag\<close>. \<open>delta\<close> is the pair of the frame's movement,
  \<open>delta[0]\<close> horizontal and \<open>delta[1]\<close> vertical. The result is the list of the calls of
  \<open>onValueRawChange\<close>: the handler makes exactly one.
\<close>

definition dragDiff01 :: "number \<Rightarrow> number \<times> number \<Rightarrow> number" where
  "dragDiff01 sensitivity delta =
     (let diff01 = 0;
          diff01 = diff01 + fst delta * sensitivity;
          diff01 = diff01 + snd delta * (- sensitivity)
      in diff01)"

definition dragNewValue01 :: "number \<Rightarrow> number \<Rightarrow> number" where
  "dragNewValue01 value01 diff01 = clamp01 (value01 + diff01)"

definition dragHandler :: "KnobHeadlessProps \<Rightarrow> number \<times> number \<Rightarrow> number list" where
  "dragHandler p delta =
     (let mapTo01' = orDefault (mapTo01 p) mapTo01Default;
          mapFrom01' = orDefault (mapFrom01 p) mapFrom01Default;
          diff01 = dragDiff01 (dragSensitivity p) delta;
          value01 = mapTo01' (valueRaw p) (valueMin p) (valueMax p);
          newValue01 = dragNewValue01 value01 diff01;
          newValueRaw =
            clamp (mapFrom01' newValue01 (valueMin p) (valueMax p)) (valueMin p) (valueMax p)
      in [newValueRaw])"

text \<open>The options the component passes to \<open>useDrag\<close> beside the handler.\<close>

record DragOptions =
  opt_axis :: "dragAxis option"
  opt_enabled :: bool

definition dragOptions :: "KnobHeadlessProps \<Rightarrow> DragOptions" where
  "dragOptions p =
     \<lparr>opt_axis = getDragAxis (orientation p) (orDefault (axis p) axisDefault),
      opt_enabled = (\<not> orDefault (disabled p) disabledDefault)\<rparr>"

text \<open>
  Modelled from the spec: the axis lock of the gesture source (\<open>useDrag\<close> of the imported
  gesture package, not among the sources). The movement is restricted to the configured
  axis: \<open>x\<close> only, \<open>y\<close> only, or both when there is no lock.
\<close>

definition lockDelta :: "dragAxis option \<Rightarrow> number \<times> number \<Rightarrow> number \<times> number" where
  "lockDelta a delta =
     (case a of
        None \<Rightarrow> delta
      | Some DragX \<Rightarrow> (fst delta, 0)
      | Some DragY \<Rightarrow> (0, snd delta))"

text \<open>
  Modelled from the spec: \<open>useDrag\<close> of the imported gesture package. While the binding
  is enabled each frame's movement, restricted to the axis, is given to the handler;
  a binding that is not enabled is inert and the handler is never run.
\<close>

definition useDrag ::
  "(number \<times> number \<Rightarrow> number list) \<Rightarrow> DragOptions \<Rightarrow> number \<times> number \<Rightarrow> number list" where
  "useDrag handler opts delta =
     (if opt_enabled opts then handler (lockDelta (opt_axis opts) delta) else [])"

text \<open>One frame of a drag on the rendered component: the calls of \<open>onValueRawChange\<close>.\<close>

definition bindDrag :: "KnobHeadlessProps \<Rightarrow> number \<times> number \<Rightarrow> number list" where
  "bindDrag p = useDrag (dragHandler p) (dragOptions p)"

section \<open>KnobHeadless: the rendered element\<close>

text \<open>
  The attributes of the rendered \<open>div\<close> that the component computes. The two
  \<open>disabled\<close> attributes are present only when the component is disabled.
\<close>

record SliderAttributes =
  role :: string
  aria_valuenow :: number
  aria_valuemin :: number
  aria_valuemax :: number
  aria_orientation :: "orientation option"
  aria_valuetext :: string
  tabIndex :: int
  aria_disabled :: "bool option"
  data_disabled :: "bool option"

definition KnobHeadless :: "KnobHeadlessProps \<Rightarrow> SliderAttributes" where
  "KnobHeadless p =
     (let axis' = orDefault (axis p) axisDefault;
          includeIntoTabOrder' = orDefault (includeIntoTabOrder p) includeIntoTabOrderDefault;
          disabled' = orDefault (disabled p) disabledDefault;
          value = valueRawRoundFn p (valueRaw p)
      in \<lparr>role = ''slider'',
          aria_valuenow = value,
          aria_valuemin = valueMin p,
          aria_valuemax = valueMax p,
          aria_orientation = getAriaOrientation (orientation p) axis',
          aria_valuetext = valueRawDisplayFn p (valueRaw p),
          tabIndex = getTabIndex includeIntoTabOrder' disabled',
          aria_disabled = (if disabled' then Some True else None),
          data_disabled = (if disabled' then Some True else None)\<rparr>)"

section \<open>KnobDisabled: a range with a centre\<close>

text \<open>
  Modelled from the spec: the class \<open>NormalisableRange\<close> of the documentation
  application (\<open>utils/math/NormalisableRange\<close>, not among the sources; only its use in
  \<open>KnobDisabled\<close> is). The constructor takes the minimum, the maximum and the centre: the
  raw value that is mapped to the position one half.
\<close>

record NormalisableRange =
  rangeMin :: number
  rangeMax :: number
  rangeCenter :: number

text \<open>
  Modelled from the spec: the method \<open>mapTo01\<close> of \<open>NormalisableRange\<close>. Two
  independent linear segments, the raw values from the minimum to the centre onto the
  positions from 0 to one half, and those from the centre to the maximum onto the
  positions from one half to 1; a raw value outside the range is clamped.
\<close>

definition range_mapTo01 :: "NormalisableRange \<Rightarrow> number \<Rightarrow> number" where
  "range_mapTo01 r v =
     (let w = clamp v (rangeMin r) (rangeMax r)
      in if w \<le> rangeCenter r
         then (w - rangeMin r) / (rangeCenter r - rangeMin r) * (1 / 2)
         else 1 / 2 + (w - rangeCenter r) / (rangeMax r - rangeCenter r) * (1 / 2))"

text \<open>
  Modelled from the spec: the method \<open>mapFrom01\<close> of \<open>NormalisableRange\<close>, the same two
  segments read in the other direction; the position is clamped to the unit interval first.
\<close>

definition range_mapFrom01 :: "NormalisableRange \<Rightarrow> number \<Rightarrow> number" where
  "range_mapFrom01 r v =
     (let q = clamp01 v
      in if q \<le> 1 / 2
         then rangeMin r + q / (1 / 2) * (rangeCenter r - rangeMin r)
         else rangeCenter r + (q - 1 / 2) / (1 / 2) * (rangeMax r - rangeCenter r))"

text \<open>The constants of \<open>KnobDisabled\<close> and the two mapping functions it passes on.\<close>

definition KnobDisabled_valueMin :: number where
  "KnobDisabled_valueMin = 20"

definition KnobDisabled_valueMax :: number where
  "KnobDisabled_valueMax = 20000"

definition KnobDisabled_valueDefault :: number where
  "KnobDisabled_valueDefault = 440"

definition normalisableRange :: NormalisableRange where
  "normalisableRange =
     \<lparr>rangeMin = KnobDisabled_valueMin, rangeMax = KnobDisabled_valueMax, rangeCenter = 1000\<rparr>"

definition KnobDisabled_mapTo01 :: "number \<Rightarrow> number" where
  "KnobDisabled_mapTo01 v = range_mapTo01 normalisableRange v"

definition KnobDisabled_mapFrom01 :: "number \<Rightarrow> number" where
  "KnobDisabled_mapFrom01 v = range_mapFrom01 normalisableRange v"

section \<open>KnobBaseThumb: the rotation of the thumb\<close>

datatype theme = Stone | Pink | Green | Sky | Gray

record KnobBaseThumbProps =
  theme :: theme
  value01 :: number

text \<open>The angle, in degrees, that \<open>KnobBaseThumb\<close> writes into the \<open>rotate\<close> style.\<close>

definition KnobBaseThumb_angle :: "KnobBaseThumbProps \<Rightarrow> number" where
  "KnobBaseThumb_angle p =
     (let angleMin = - 145;
          angleMax = 145;
          angle = mapFrom01Linear (value01 p) angleMin angleMax
      in angle)"

section \<open>The worked drag scenario\<close>

text \<open>
  The configuration of the worked example: the range from 20 to 20000 and the value 440
  of \<open>KnobDisabled\<close>, the recommended sensitivity 0.006, the axis \<open>y\<close>, the default
  (linear) curve, no rounding, and the control enabled.
\<close>

definition dragScenario :: KnobHeadlessProps where
  "dragScenario =
     \<lparr>valueRaw = KnobDisabled_valueDefault,
      valueMin = KnobDisabled_valueMin,
      valueMax = KnobDisabled_valueMax,
      dragSensitivity = 6 / 1000,
      valueRawRoundFn = (\<lambda>v. v),
      valueRawDisplayFn = (\<lambda>v. ''''),
      orientation = None,
      axis = Some Y,
      includeIntoTabOrder = None,
      disabled = None,
      mapTo01 = None,
      mapFrom01 = None\<rparr>"

section \<open>Facts about the helpers\<close>

lemma clamp_bounds: "lo \<le> hi \<Longrightarrow> lo \<le> clamp v lo hi \<and> clamp v lo hi \<le> hi"
  by (simp add: clamp_def)

lemma clamp_inside: "lo \<le> v \<Longrightarrow> v \<le> hi \<Longrightarrow> clamp v lo hi = v"
  by (simp add: clamp_def)

lemma clamp01_bounds: "0 \<le> clamp01 v \<and> clamp01 v \<le> 1"
  by (simp add: clamp01_def clamp_def)

lemma clamp01_inside: "0 \<le> v \<Longrightarrow> v \<le> 1 \<Longrightarrow> clamp01 v = v"
  by (simp add: clamp01_def clamp_def)

lemma mapFrom01Linear_inside:
  "0 \<le> v \<Longrightarrow> v \<le> 1 \<Longrightarrow> mapFrom01Linear v lo hi = lo + v * (hi - lo)"
  by (simp add: mapFrom01Linear_def clamp01_inside)

lemma mapTo01Linear_inside:
  "lo \<le> v \<Longrightarrow> v \<le> hi \<Longrightarrow> mapTo01Linear v lo hi = (v - lo) / (hi - lo)"
  by (simp add: mapTo01Linear_def clamp_inside)

lemma mapTo01Linear_unit:
  assumes "lo < hi" "lo \<le> v" "v \<le> hi"
  shows "0 \<le> mapTo01Linear v lo hi \<and> mapTo01Linear v lo hi \<le> 1"
  using assms by (simp add: mapTo01Linear_inside)

section \<open>Facts about the drag handler\<close>

lemma dragDiff01_eq: "dragDiff01 s (dx, dy) = dx * s - dy * s"
  by (simp add: dragDiff01_def)

lemma dragHandler_eq:
  "dragHandler p delta =
     [clamp (orDefault (mapFrom01 p) mapFrom01Default
        (clamp01 (orDefault (mapTo01 p) mapTo01Default (valueRaw p) (valueMin p) (valueMax p)
           + dragDiff01 (dragSensitivity p) delta))
        (valueMin p) (valueMax p)) (valueMin p) (valueMax p)]"
  by (simp add: dragHandler_def dragNewValue01_def Let_def)

lemma bindDrag_eq:
  "bindDrag p delta =
     (if orDefault (disabled p) disabledDefault then []
      else dragHandler p
        (lockDelta (getDragAxis (orientation p) (orDefault (axis p) axisDefault)) delta))"
  by (simp add: bindDrag_def useDrag_def dragOptions_def)

section \<open>Facts about the range with a centre\<close>

lemma ratio_unit:
  fixes w :: rat
  assumes "lo < hi" and "lo \<le> w" and "w \<le> hi"
  shows "0 \<le> (w - lo) / (hi - lo) \<and> (w - lo) / (hi - lo) \<le> 1"
  using assms by simp

lemma ratio_back:
  fixes w :: rat
  assumes "lo < hi"
  shows "(w - lo) / (hi - lo) * (hi - lo) = w - lo"
  using assms by simp

lemma scale_unit:
  fixes t :: rat
  assumes "lo < hi" and "0 \<le> t" and "t \<le> 1"
  shows "0 \<le> t * (hi - lo) \<and> t * (hi - lo) \<le> hi - lo"
proof
  show "0 \<le> t * (hi - lo)"
    using assms by (intro mult_nonneg_nonneg) simp_all
  have "t * (hi - lo) \<le> 1 * (hi - lo)"
    using assms by (intro mult_right_mono) simp_all
  then show "t * (hi - lo) \<le> hi - lo" by simp
qed

lemma scale_back:
  fixes t :: rat
  assumes "lo < hi"
  shows "t * (hi - lo) / (hi - lo) = t"
  using assms by simp

lemma scale_mono:
  fixes s t :: rat
  assumes "lo < hi" and "s \<le> t"
  shows "s * (hi - lo) \<le> t * (hi - lo)"
  using assms by (intro mult_right_mono) simp_all

lemma ratio_mono:
  fixes v w :: rat
  assumes "lo < hi" and "v \<le> w"
  shows "(v - lo) / (hi - lo) \<le> (w - lo) / (hi - lo)"
  using assms by (intro divide_right_mono) simp_all

lemma range_mapTo01_lower:
  assumes "rangeMin r \<le> v" and "v \<le> rangeCenter r" and "rangeCenter r < rangeMax r"
  shows "range_mapTo01 r v = (v - rangeMin r) / (rangeCenter r - rangeMin r) * (1 / 2)"
  using assms by (simp add: range_mapTo01_def clamp_inside)

lemma range_mapTo01_upper:
  assumes "rangeMin r < rangeCenter r" and "rangeCenter r \<le> v" and "v \<le> rangeMax r"
  shows "range_mapTo01 r v = 1 / 2 + (v - rangeCenter r) / (rangeMax r - rangeCenter r) * (1 / 2)"
proof (cases "v = rangeCenter r")
  case True
  with assms show ?thesis by (simp add: range_mapTo01_def clamp_inside)
next
  case False
  with assms have "\<not> v \<le> rangeCenter r" and "rangeMin r \<le> v" by simp_all
  with assms show ?thesis by (simp add: range_mapTo01_def clamp_inside)
qed

lemma range_mapTo01_lower_bounds:
  assumes "rangeMin r < rangeCenter r" and "rangeCenter r < rangeMax r"
    and "rangeMin r \<le> v" and "v \<le> rangeCenter r"
  shows "0 \<le> range_mapTo01 r v \<and> range_mapTo01 r v \<le> 1 / 2"
proof -
  define t where "t = (v - rangeMin r) / (rangeCenter r - rangeMin r)"
  have eq: "range_mapTo01 r v = t * (1 / 2)"
    unfolding t_def using assms by (simp only: range_mapTo01_lower)
  have "0 \<le> t \<and> t \<le> 1"
    unfolding t_def using assms by (intro ratio_unit) simp_all
  then show ?thesis unfolding eq by simp
qed

lemma range_mapTo01_upper_bounds:
  assumes "rangeMin r < rangeCenter r" and "rangeCenter r < rangeMax r"
    and "rangeCenter r \<le> v" and "v \<le> rangeMax r"
  shows "1 / 2 \<le> range_mapTo01 r v \<and> range_mapTo01 r v \<le> 1"
proof -
  define t where "t = (v - rangeCenter r) / (rangeMax r - rangeCenter r)"
  have eq: "range_mapTo01 r v = 1 / 2 + t * (1 / 2)"
    unfolding t_def using assms by (simp only: range_mapTo01_upper)
  have "0 \<le> t \<and> t \<le> 1"
    unfolding t_def using assms by (intro ratio_unit) simp_all
  then show ?thesis unfolding eq by simp
qed

lemma range_mapTo01_mono:
  assumes "rangeMin r < rangeCenter r" and "rangeCenter r < rangeMax r"
    and "rangeMin r \<le> a" and "a \<le> b" and "b \<le> rangeMax r"
  shows "range_mapTo01 r a \<le> range_mapTo01 r b"
proof -
  consider "b \<le> rangeCenter r" | "a \<le> rangeCenter r" "rangeCenter r \<le> b" | "rangeCenter r \<le> a"
    by linarith
  then show ?thesis
  proof cases
    case 1
    define s where "s = (a - rangeMin r) / (rangeCenter r - rangeMin r)"
    define t where "t = (b - rangeMin r) / (rangeCenter r - rangeMin r)"
    from 1 assms have "a \<le> rangeCenter r" and "rangeMin r \<le> b" by simp_all
    with 1 assms have "range_mapTo01 r a = s * (1 / 2)" and "range_mapTo01 r b = t * (1 / 2)"
      unfolding s_def t_def by (simp_all only: range_mapTo01_lower)
    moreover have "s \<le> t"
      unfolding s_def t_def using assms by (intro ratio_mono) simp_all
    ultimately show ?thesis by simp
  next
    case 2
    have "range_mapTo01 r a \<le> 1 / 2"
      using assms 2 range_mapTo01_lower_bounds [of r a] by simp
    moreover have "1 / 2 \<le> range_mapTo01 r b"
      using assms 2 range_mapTo01_upper_bounds [of r b] by simp
    ultimately show ?thesis by simp
  next
    case 3
    define s where "s = (a - rangeCenter r) / (rangeMax r - rangeCenter r)"
    define t where "t = (b - rangeCenter r) / (rangeMax r - rangeCenter r)"
    from 3 assms have "rangeCenter r \<le> b" and "a \<le> rangeMax r" by simp_all
    with 3 assms have "range_mapTo01 r a = 1 / 2 + s * (1 / 2)"
      and "range_mapTo01 r b = 1 / 2 + t * (1 / 2)"
      unfolding s_def t_def by (simp_all only: range_mapTo01_upper)
    moreover have "s \<le> t"
      unfolding s_def t_def using assms by (intro ratio_mono) simp_all
    ultimately show ?thesis by simp
  qed
qed

lemma range_mapFrom01_lower:
  assumes "0 \<le> q" and "q \<le> 1 / 2"
  shows "range_mapFrom01 r q = rangeMin r + 2 * q * (rangeCenter r - rangeMin r)"
  using assms by (simp add: range_mapFrom01_def clamp01_inside)

lemma range_mapFrom01_upper:
  assumes "1 / 2 \<le> q" and "q \<le> 1"
  shows "range_mapFrom01 r q = rangeCenter r + (2 * q - 1) * (rangeMax r - rangeCenter r)"
proof (cases "q = 1 / 2")
  case True
  then show ?thesis by (simp add: range_mapFrom01_def clamp01_inside)
next
  case False
  with assms have "\<not> q \<le> 1 / 2" and "0 \<le> q" by simp_all
  with assms show ?thesis
    by (simp add: range_mapFrom01_def clamp01_inside algebra_simps)
qed

lemma range_mapFrom01_lower_bounds:
  assumes "rangeMin r < rangeCenter r" and "0 \<le> q" and "q \<le> 1 / 2"
  shows "rangeMin r \<le> range_mapFrom01 r q \<and> range_mapFrom01 r q \<le> rangeCenter r"
proof -
  define e where "e = 2 * q * (rangeCenter r - rangeMin r)"
  have eq: "range_mapFrom01 r q = rangeMin r + e"
    unfolding e_def using assms by (simp only: range_mapFrom01_lower)
  have "0 \<le> e \<and> e \<le> rangeCenter r - rangeMin r"
    unfolding e_def using assms by (intro scale_unit) simp_all
  then show ?thesis unfolding eq by simp
qed

lemma range_mapFrom01_upper_bounds:
  assumes "rangeCenter r < rangeMax r" and "1 / 2 \<le> q" and "q \<le> 1"
  shows "rangeCenter r \<le> range_mapFrom01 r q \<and> range_mapFrom01 r q \<le> rangeMax r"
proof -
  define e where "e = (2 * q - 1) * (rangeMax r - rangeCenter r)"
  have eq: "range_mapFrom01 r q = rangeCenter r + e"
    unfolding e_def using assms by (simp only: range_mapFrom01_upper)
  have "0 \<le> e \<and> e \<le> rangeMax r - rangeCenter r"
    unfolding e_def using assms by (intro scale_unit) simp_all
  then show ?thesis unfolding eq by simp
qed

lemma range_mapFrom01_mono:
  assumes "rangeMin r < rangeCenter r" and "rangeCenter r < rangeMax r"
    and "0 \<le> a" and "a \<le> b" and "b \<le> 1"
  shows "range_mapFrom01 r a \<le> range_mapFrom01 r b"
proof -
  consider "b \<le> 1 / 2" | "a \<le> 1 / 2" "1 / 2 \<le> b" | "1 / 2 \<le> a"
    by linarith
  then show ?thesis
  proof cases
    case 1
    define s where "s = 2 * a * (rangeCenter r - rangeMin r)"
    define t where "t = 2 * b * (rangeCenter r - rangeMin r)"
    from 1 assms have "a \<le> 1 / 2" and "0 \<le> b" by simp_all
    with 1 assms have "range_mapFrom01 r a = rangeMin r + s"
      and "range_mapFrom01 r b = rangeMin r + t"
      unfolding s_def t_def by (simp_all only: range_mapFrom01_lower)
    moreover have "s \<le> t"
      unfolding s_def t_def using assms by (intro scale_mono) simp_all
    ultimately show ?thesis by simp
  next
    case 2
    have "range_mapFrom01 r a \<le> rangeCenter r"
      using assms 2 range_mapFrom01_lower_bounds [of r a] by simp
    moreover have "rangeCenter r \<le> range_mapFrom01 r b"
      using assms 2 range_mapFrom01_upper_bounds [of r b] by simp
    ultimately show ?thesis by simp
  next
    case 3
    define s where "s = (2 * a - 1) * (rangeMax r - rangeCenter r)"
    define t where "t = (2 * b - 1) * (rangeMax r - rangeCenter r)"
    from 3 assms have "1 / 2 \<le> b" and "a \<le> 1" by simp_all
    with 3 assms have "range_mapFrom01 r a = rangeCenter r + s"
      and "range_mapFrom01 r b = rangeCenter r + t"
      unfolding s_def t_def by (simp_all only: range_mapFrom01_upper)
    moreover have "s \<le> t"
      unfolding s_def t_def using assms by (intro scale_mono) simp_all
    ultimately show ?thesis by simp
  qed
qed

lemma range_round_trip_raw:
  assumes "rangeMin r < rangeCenter r" and "rangeCenter r < rangeMax r"
    and "rangeMin r \<le> v" and "v \<le> rangeMax r"
  shows "range_mapFrom01 r (range_mapTo01 r v) = v"
proof (cases "v \<le> rangeCenter r")
  case True
  define t where "t = (v - rangeMin r) / (rangeCenter r - rangeMin r)"
  have eq: "range_mapTo01 r v = t * (1 / 2)"
    unfolding t_def using assms True by (simp only: range_mapTo01_lower)
  have cancel: "t * (rangeCenter r - rangeMin r) = v - rangeMin r"
    unfolding t_def using assms by (simp only: ratio_back)
  have "0 \<le> range_mapTo01 r v \<and> range_mapTo01 r v \<le> 1 / 2"
    using assms True by (intro range_mapTo01_lower_bounds) simp_all
  then have "range_mapFrom01 r (range_mapTo01 r v)
      = rangeMin r + 2 * range_mapTo01 r v * (rangeCenter r - rangeMin r)"
    by (intro range_mapFrom01_lower) simp_all
  also have "\<dots> = rangeMin r + t * (rangeCenter r - rangeMin r)"
    unfolding eq by simp
  also have "\<dots> = v"
    unfolding cancel by simp
  finally show ?thesis .
next
  case False
  then have up: "rangeCenter r \<le> v" by simp
  define t where "t = (v - rangeCenter r) / (rangeMax r - rangeCenter r)"
  have eq: "range_mapTo01 r v = 1 / 2 + t * (1 / 2)"
    unfolding t_def using assms up by (simp only: range_mapTo01_upper)
  have cancel: "t * (rangeMax r - rangeCenter r) = v - rangeCenter r"
    unfolding t_def using assms by (simp only: ratio_back)
  have "1 / 2 \<le> range_mapTo01 r v \<and> range_mapTo01 r v \<le> 1"
    using assms up by (intro range_mapTo01_upper_bounds) simp_all
  then have "range_mapFrom01 r (range_mapTo01 r v)
      = rangeCenter r + (2 * range_mapTo01 r v - 1) * (rangeMax r - rangeCenter r)"
    by (intro range_mapFrom01_upper) simp_all
  also have "2 * range_mapTo01 r v - 1 = t"
    unfolding eq by simp
  also have "rangeCenter r + t * (rangeMax r - rangeCenter r) = v"
    unfolding cancel by simp
  finally show ?thesis .
qed

lemma range_round_trip_pos:
  assumes "rangeMin r < rangeCenter r" and "rangeCenter r < rangeMax r"
    and "0 \<le> q" and "q \<le> 1"
  shows "range_mapTo01 r (range_mapFrom01 r q) = q"
proof (cases "q \<le> 1 / 2")
  case True
  define e where "e = 2 * q * (rangeCenter r - rangeMin r)"
  have eq: "range_mapFrom01 r q = rangeMin r + e"
    unfolding e_def using assms True by (simp only: range_mapFrom01_lower)
  have cancel: "e / (rangeCenter r - rangeMin r) = 2 * q"
    unfolding e_def using assms by (simp only: scale_back)
  have "rangeMin r \<le> range_mapFrom01 r q \<and> range_mapFrom01 r q \<le> rangeCenter r"
    using assms True by (intro range_mapFrom01_lower_bounds) simp_all
  then have "range_mapTo01 r (range_mapFrom01 r q)
      = (range_mapFrom01 r q - rangeMin r) / (rangeCenter r - rangeMin r) * (1 / 2)"
    using assms by (intro range_mapTo01_lower) simp_all
  also have "range_mapFrom01 r q - rangeMin r = e"
    unfolding eq by simp
  also have "e / (rangeCenter r - rangeMin r) * (1 / 2) = q"
    unfolding cancel by simp
  finally show ?thesis .
next
  case False
  then have up: "1 / 2 \<le> q" by simp
  define e where "e = (2 * q - 1) * (rangeMax r - rangeCenter r)"
  have eq: "range_mapFrom01 r q = rangeCenter r + e"
    unfolding e_def using assms up by (simp only: range_mapFrom01_upper)
  have cancel: "e / (rangeMax r - rangeCenter r) = 2 * q - 1"
    unfolding e_def using assms by (simp only: scale_back)
  have "rangeCenter r \<le> range_mapFrom01 r q \<and> range_mapFrom01 r q \<le> rangeMax r"
    using assms up by (intro range_mapFrom01_upper_bounds) simp_all
  then have "range_mapTo01 r (range_mapFrom01 r q)
      = 1 / 2 + (range_mapFrom01 r q - rangeCenter r) / (rangeMax r - rangeCenter r) * (1 / 2)"
    using assms by (intro range_mapTo01_upper) simp_all
  also have "range_mapFrom01 r q - rangeCenter r = e"
    unfolding eq by simp
  also have "1 / 2 + e / (rangeMax r - rangeCenter r) * (1 / 2) = q"
    unfolding cancel by (simp add: algebra_simps)
  finally show ?thesis .
qed

section \<open>The value a drag frame reports\<close>

text \<open>
  C1. On an enabled control every drag frame reports exactly one value to the owner:
  the current raw value is mapped to its position, the frame's movement times the
  sensitivity is added (the horizontal part as it is, the vertical part negated, so that
  moving up increases the value), the sum is clamped to the unit interval, mapped back,
  and clamped to the range. The movement that counts is the horizontal one when the
  drag axis is \<open>x\<close>, the vertical one when it is \<open>y\<close>, and both, summed, when there is
  no axis lock. The equation holds for every range, so also for those with
  \<open>min < max\<close>.
\<close>

theorem drag_frame_reported_value:
  assumes "\<not> orDefault (disabled p) disabledDefault"
  shows "bindDrag p (dx, dy) =
     [clamp (orDefault (mapFrom01 p) mapFrom01Default
        (clamp01 (orDefault (mapTo01 p) mapTo01Default (valueRaw p) (valueMin p) (valueMax p)
           + (case getDragAxis (orientation p) (orDefault (axis p) axisDefault) of
                Some DragX \<Rightarrow> dx * dragSensitivity p
              | Some DragY \<Rightarrow> - dy * dragSensitivity p
              | None \<Rightarrow> dx * dragSensitivity p - dy * dragSensitivity p)))
        (valueMin p) (valueMax p)) (valueMin p) (valueMax p)]"
proof -
  have "dragDiff01 (dragSensitivity p)
          (lockDelta (getDragAxis (orientation p) (orDefault (axis p) axisDefault)) (dx, dy))
        = (case getDragAxis (orientation p) (orDefault (axis p) axisDefault) of
                Some DragX \<Rightarrow> dx * dragSensitivity p
              | Some DragY \<Rightarrow> - dy * dragSensitivity p
              | None \<Rightarrow> dx * dragSensitivity p - dy * dragSensitivity p)"
    by (simp add: lockDelta_def dragDiff01_eq split: option.split dragAxis.split)
  then show ?thesis
    using assms by (simp add: bindDrag_eq dragHandler_eq)
qed

theorem drag_frame_reported_value_witness:
  "\<not> orDefault (disabled dragScenario) disabledDefault
   \<and> bindDrag dragScenario (3, - 10) = [8194 / 5]"
  using drag_frame_reported_value [of dragScenario 3 "- 10"]
  by (simp add: dragScenario_def orDefault_def disabledDefault_def axisDefault_def
      getDragAxis_def mapTo01Default_def mapFrom01Default_def mapTo01Linear_def
      mapFrom01Linear_def clamp01_def clamp_def KnobDisabled_valueMin_def
      KnobDisabled_valueMax_def KnobDisabled_valueDefault_def)

section \<open>The disabled control\<close>

text \<open>
  C2. When the control is disabled no drag frame calls \<open>onValueRawChange\<close>: the list
  of the calls is empty for every movement. The tab index is \<open>-1\<close> whatever
  \<open>includeIntoTabOrder\<close> is, given or not, and the element is marked as disabled.
\<close>

theorem disabled_is_inert:
  "bindDrag (p\<lparr>disabled := Some True\<rparr>) delta = []
   \<and> getTabIndex inc True = - 1
   \<and> tabIndex (KnobHeadless (p\<lparr>disabled := Some True\<rparr>)) = - 1
   \<and> tabIndex (KnobHeadless (p\<lparr>disabled := Some True, includeIntoTabOrder := Some inc\<rparr>)) = - 1
   \<and> aria_disabled (KnobHeadless (p\<lparr>disabled := Some True\<rparr>)) = Some True"
  by (simp add: bindDrag_eq getTabIndex_def KnobHeadless_def orDefault_def Let_def)

section \<open>Axis and orientation\<close>

text \<open>
  C3. The legacy \<open>orientation\<close> property, when given, decides both the drag axis
  (\<open>x\<close> for horizontal, \<open>y\<close> for vertical) and the reported orientation, whatever
  \<open>axis\<close> is. Without it and with axis \<open>xy\<close> the reported orientation is undefined and
  the drag has no axis lock. The same holds of the options and attributes the component
  builds from its properties.
\<close>

theorem orientation_takes_precedence:
  "getDragAxis (Some Horizontal) a = Some DragX
   \<and> getDragAxis (Some Vertical) a = Some DragY
   \<and> getAriaOrientation (Some ori) a = Some ori
   \<and> getAriaOrientation None XY = None
   \<and> getDragAxis None XY = None
   \<and> opt_axis (dragOptions (p\<lparr>orientation := Some Horizontal\<rparr>)) = Some DragX
   \<and> opt_axis (dragOptions (p\<lparr>orientation := Some Vertical\<rparr>)) = Some DragY
   \<and> aria_orientation (KnobHeadless (p\<lparr>orientation := Some ori\<rparr>)) = Some ori
   \<and> aria_orientation (KnobHeadless (p\<lparr>orientation := None, axis := Some XY\<rparr>)) = None
   \<and> opt_axis (dragOptions (p\<lparr>orientation := None, axis := Some XY\<rparr>)) = None"
  by (simp add: getDragAxis_def getAriaOrientation_def dragOptions_def KnobHeadless_def
      orDefault_def Let_def)

section \<open>Round trip of the linear curve\<close>

text \<open>
  C4. For a range with \<open>lo < hi\<close> and a raw value \<open>v\<close> between \<open>lo\<close> and \<open>hi\<close>, mapping
  \<open>v\<close> to its position with the default (linear) curve and mapping the position back
  gives \<open>v\<close> again, exactly, over the rationals.
\<close>

theorem linear_round_trip:
  assumes "lo < hi" and "lo \<le> v" and "v \<le> hi"
  shows "mapFrom01Default (mapTo01Default v lo hi) lo hi = v"
proof -
  have unit: "0 \<le> mapTo01Linear v lo hi \<and> mapTo01Linear v lo hi \<le> 1"
    using assms by (rule mapTo01Linear_unit)
  have "mapFrom01Linear (mapTo01Linear v lo hi) lo hi = lo + mapTo01Linear v lo hi * (hi - lo)"
    using unit by (simp add: mapFrom01Linear_inside)
  also have "\<dots> = lo + (v - lo) / (hi - lo) * (hi - lo)"
    using assms by (simp add: mapTo01Linear_inside)
  also have "\<dots> = v"
    using assms by simp
  finally show ?thesis
    by (simp add: mapFrom01Default_def mapTo01Default_def)
qed

theorem linear_round_trip_witness:
  "(20::rat) < 20000 \<and> (20::rat) \<le> 440 \<and> (440::rat) \<le> 20000
   \<and> mapFrom01Default (mapTo01Default 440 20 20000) 20 20000 = 440"
  using linear_round_trip [of 20 20000 440] by simp

section \<open>The range of the reported value\<close>

text \<open>
  C5. When \<open>valueMin \<le> valueMax\<close>, the handler reports one value and it lies between
  \<open>valueMin\<close> and \<open>valueMax\<close>, whatever the mapping functions are, and so does every
  value a frame of the bound drag reports. The new position always lies in the unit
  interval; from position 0 a negative difference gives exactly 0, and from position 1 a
  positive difference gives exactly 1.
\<close>

theorem drag_frame_in_range:
  "(valueMin p \<le> valueMax p \<longrightarrow>
      (\<exists>v. dragHandler p delta = [v] \<and> valueMin p \<le> v \<and> v \<le> valueMax p)
      \<and> (\<forall>v \<in> set (bindDrag p delta). valueMin p \<le> v \<and> v \<le> valueMax p))
   \<and> 0 \<le> dragNewValue01 pos01 diff01 \<and> dragNewValue01 pos01 diff01 \<le> 1
   \<and> (dneg < 0 \<longrightarrow> dragNewValue01 0 dneg = 0)
   \<and> (0 < dpos \<longrightarrow> dragNewValue01 1 dpos = 1)"
proof -
  have a: "valueMin p \<le> valueMax p \<Longrightarrow>
      \<exists>v. dragHandler p delta = [v] \<and> valueMin p \<le> v \<and> v \<le> valueMax p"
    by (simp add: dragHandler_eq clamp_bounds)
  have b: "valueMin p \<le> valueMax p \<Longrightarrow>
      \<forall>v \<in> set (bindDrag p delta). valueMin p \<le> v \<and> v \<le> valueMax p"
    by (simp add: bindDrag_eq dragHandler_eq clamp_bounds)
  have c: "0 \<le> dragNewValue01 pos01 diff01 \<and> dragNewValue01 pos01 diff01 \<le> 1"
    by (simp add: dragNewValue01_def clamp01_bounds)
  have d: "dneg < 0 \<Longrightarrow> dragNewValue01 0 dneg = 0"
    by (simp add: dragNewValue01_def clamp01_def clamp_def)
  have e: "0 < dpos \<Longrightarrow> dragNewValue01 1 dpos = 1"
    by (simp add: dragNewValue01_def clamp01_def clamp_def)
  from a b c d e show ?thesis by blast
qed

theorem drag_frame_in_range_witness:
  "valueMin dragScenario \<le> valueMax dragScenario
   \<and> set (bindDrag dragScenario (0, - 10)) = {8194 / 5}
   \<and> valueMin dragScenario \<le> 8194 / 5 \<and> 8194 / 5 \<le> valueMax dragScenario
   \<and> (- 1 :: rat) < 0 \<and> dragNewValue01 0 (- 1) = 0
   \<and> (0 :: rat) < 1 \<and> dragNewValue01 1 1 = 1"
proof -
  note inst = drag_frame_in_range [of dragScenario "(0, - 10)" "1 / 2" "1 / 2" "- 1" 1]
  have range: "valueMin dragScenario \<le> valueMax dragScenario"
    by (simp add: dragScenario_def KnobDisabled_valueMin_def KnobDisabled_valueMax_def)
  have frame: "set (bindDrag dragScenario (0, - 10)) = {8194 / 5}"
    by (simp add: bindDrag_eq dragHandler_eq dragDiff01_eq lockDelta_def
        dragScenario_def orDefault_def disabledDefault_def axisDefault_def
        getDragAxis_def mapTo01Default_def mapFrom01Default_def mapTo01Linear_def
        mapFrom01Linear_def clamp01_def clamp_def KnobDisabled_valueMin_def
        KnobDisabled_valueMax_def KnobDisabled_valueDefault_def)
  have "\<forall>v \<in> set (bindDrag dragScenario (0, - 10)).
      valueMin dragScenario \<le> v \<and> v \<le> valueMax dragScenario"
    using inst range by blast
  then have inside: "valueMin dragScenario \<le> 8194 / 5 \<and> 8194 / 5 \<le> valueMax dragScenario"
    unfolding frame by blast
  have neg: "(- 1 :: rat) < 0" and pos: "(0 :: rat) < 1"
    by simp_all
  have low: "dragNewValue01 0 (- 1) = 0"
    using inst neg by blast
  have high: "dragNewValue01 1 1 = 1"
    using inst pos by blast
  from range frame inside neg pos low high show ?thesis
    by (intro conjI) simp_all
qed

section \<open>Boundary values of the linear curve\<close>

text \<open>
  C6. For a range with \<open>lo < hi\<close> the default (linear) curve maps \<open>lo\<close> to 0 and \<open>hi\<close>
  to 1, and a raw value \<open>v\<close> between them to \<open>(v - lo) / (hi - lo)\<close>.
\<close>

theorem linear_boundaries:
  "lo < hi \<Longrightarrow>
     mapTo01Default lo lo hi = 0
     \<and> mapTo01Default hi lo hi = 1
     \<and> (lo \<le> v \<and> v \<le> hi \<longrightarrow> mapTo01Default v lo hi = (v - lo) / (hi - lo))"
  by (simp add: mapTo01Default_def mapTo01Linear_inside)

theorem linear_boundaries_witness:
  "(20::rat) < 20000
   \<and> mapTo01Default 20 20 20000 = 0
   \<and> mapTo01Default 20000 20 20000 = 1
   \<and> (20::rat) \<le> 440 \<and> (440::rat) \<le> 20000
   \<and> mapTo01Default 440 20 20000 = (440 - 20) / (20000 - 20)"
  using linear_boundaries [of 20 20000 440] by simp

section \<open>The worked drag scenario, computed\<close>

text \<open>
  C7. With the range from 20 to 20000, the linear curve and the raw value 440 the
  position is \<open>(440 - 20) / (20000 - 20)\<close>, which is 0.0210 to four decimals. With the
  sensitivity 0.006 and the axis \<open>y\<close> the frame with movement \<open>(0, -10)\<close> gives the
  difference \<open>-(-10) * 0.006 = 0.06\<close>, the new position is 0.081 to three decimals,
  and the one value reported, 1638.8, is greater than 440 and below the maximum.
\<close>

theorem drag_scenario:
  "mapTo01Default 440 20 20000 = (440 - 20) / (20000 - 20)
   \<and> \<bar>mapTo01Default 440 20 20000 - 0.0210\<bar> < 0.00005
   \<and> opt_axis (dragOptions dragScenario) = Some DragY
   \<and> dragDiff01 0.006 (lockDelta (Some DragY) (0, - 10)) = - (- 10) * 0.006
   \<and> dragDiff01 0.006 (lockDelta (Some DragY) (0, - 10)) = 0.06
   \<and> \<bar>dragNewValue01 (mapTo01Default 440 20 20000) 0.06 - 0.081\<bar> < 0.00005
   \<and> bindDrag dragScenario (0, - 10) = [8194 / 5]
   \<and> (440::rat) < 8194 / 5 \<and> (8194 / 5 :: rat) < 20000"
  by (simp add: bindDrag_eq dragHandler_eq dragDiff01_eq lockDelta_def dragOptions_def
      dragNewValue01_def
      dragScenario_def orDefault_def disabledDefault_def axisDefault_def
      getDragAxis_def mapTo01Default_def mapFrom01Default_def mapTo01Linear_def
      mapFrom01Linear_def clamp01_def clamp_def KnobDisabled_valueMin_def
      KnobDisabled_valueMax_def KnobDisabled_valueDefault_def)

section \<open>The curve with a centre\<close>

text \<open>
  C8. For a range with \<open>min < centre < max\<close> the curve maps the centre to one half, the
  minimum to 0 and the maximum to 1. On the raw values from the minimum to the centre it
  is the linear segment onto the positions from 0 to one half, on those from the centre
  to the maximum the linear segment onto the positions from one half to 1. Both
  directions are non-decreasing over the whole range, hence on each segment, and they
  are inverse to each other on the range and on the unit interval. For the range of
  \<open>KnobDisabled\<close>, from 20 to 20000 with centre 1000, the value 1000 is mapped to
  one half, 20 to 0 and 20000 to 1.
\<close>

theorem centre_curve:
  assumes "rangeMin r < rangeCenter r" and "rangeCenter r < rangeMax r"
  shows "range_mapTo01 r (rangeCenter r) = 1 / 2
    \<and> range_mapTo01 r (rangeMin r) = 0
    \<and> range_mapTo01 r (rangeMax r) = 1
    \<and> (rangeMin r \<le> v1 \<and> v1 \<le> rangeCenter r \<longrightarrow>
         range_mapTo01 r v1 = (v1 - rangeMin r) / (rangeCenter r - rangeMin r) * (1 / 2)
         \<and> 0 \<le> range_mapTo01 r v1 \<and> range_mapTo01 r v1 \<le> 1 / 2)
    \<and> (rangeCenter r \<le> v2 \<and> v2 \<le> rangeMax r \<longrightarrow>
         range_mapTo01 r v2
           = 1 / 2 + (v2 - rangeCenter r) / (rangeMax r - rangeCenter r) * (1 / 2)
         \<and> 1 / 2 \<le> range_mapTo01 r v2 \<and> range_mapTo01 r v2 \<le> 1)
    \<and> (rangeMin r \<le> a \<and> a \<le> b \<and> b \<le> rangeMax r \<longrightarrow>
         range_mapTo01 r a \<le> range_mapTo01 r b)
    \<and> (0 \<le> qa \<and> qa \<le> qb \<and> qb \<le> 1 \<longrightarrow>
         range_mapFrom01 r qa \<le> range_mapFrom01 r qb)
    \<and> (rangeMin r \<le> v \<and> v \<le> rangeMax r \<longrightarrow>
         range_mapFrom01 r (range_mapTo01 r v) = v)
    \<and> (0 \<le> q \<and> q \<le> 1 \<longrightarrow> range_mapTo01 r (range_mapFrom01 r q) = q)
    \<and> KnobDisabled_mapTo01 1000 = 1 / 2
    \<and> KnobDisabled_mapTo01 20 = 0
    \<and> KnobDisabled_mapTo01 20000 = 1"
proof -
  have c: "range_mapTo01 r (rangeCenter r) = 1 / 2"
    using assms by (simp add: range_mapTo01_lower)
  have lo: "range_mapTo01 r (rangeMin r) = 0"
    using assms by (simp add: range_mapTo01_lower)
  have hi: "range_mapTo01 r (rangeMax r) = 1"
    using assms by (simp add: range_mapTo01_upper)
  have s1: "rangeMin r \<le> v1 \<and> v1 \<le> rangeCenter r \<longrightarrow>
         range_mapTo01 r v1 = (v1 - rangeMin r) / (rangeCenter r - rangeMin r) * (1 / 2)
         \<and> 0 \<le> range_mapTo01 r v1 \<and> range_mapTo01 r v1 \<le> 1 / 2"
    using assms range_mapTo01_lower [of r v1] range_mapTo01_lower_bounds [of r v1] by blast
  have s2: "rangeCenter r \<le> v2 \<and> v2 \<le> rangeMax r \<longrightarrow>
         range_mapTo01 r v2
           = 1 / 2 + (v2 - rangeCenter r) / (rangeMax r - rangeCenter r) * (1 / 2)
         \<and> 1 / 2 \<le> range_mapTo01 r v2 \<and> range_mapTo01 r v2 \<le> 1"
    using assms range_mapTo01_upper [of r v2] range_mapTo01_upper_bounds [of r v2] by blast
  have m1: "rangeMin r \<le> a \<and> a \<le> b \<and> b \<le> rangeMax r \<longrightarrow>
         range_mapTo01 r a \<le> range_mapTo01 r b"
    using assms range_mapTo01_mono [of r a b] by blast
  have m2: "0 \<le> qa \<and> qa \<le> qb \<and> qb \<le> 1 \<longrightarrow>
         range_mapFrom01 r qa \<le> range_mapFrom01 r qb"
    using assms range_mapFrom01_mono [of r qa qb] by blast
  have r1: "rangeMin r \<le> v \<and> v \<le> rangeMax r \<longrightarrow>
         range_mapFrom01 r (range_mapTo01 r v) = v"
    using assms range_round_trip_raw [of r v] by blast
  have r2: "0 \<le> q \<and> q \<le> 1 \<longrightarrow> range_mapTo01 r (range_mapFrom01 r q) = q"
    using assms range_round_trip_pos [of r q] by blast
  have k: "KnobDisabled_mapTo01 1000 = 1 / 2 \<and> KnobDisabled_mapTo01 20 = 0
      \<and> KnobDisabled_mapTo01 20000 = 1"
    by (simp add: KnobDisabled_mapTo01_def normalisableRange_def range_mapTo01_def clamp_def
        KnobDisabled_valueMin_def KnobDisabled_valueMax_def)
  from c lo hi s1 s2 m1 m2 r1 r2 k show ?thesis by blast
qed

theorem centre_curve_witness:
  "rangeMin normalisableRange < rangeCenter normalisableRange
   \<and> rangeCenter normalisableRange < rangeMax normalisableRange
   \<and> (20::rat) \<le> 440 \<and> (440::rat) \<le> 1000 \<and> (1000::rat) \<le> 5000 \<and> (5000::rat) \<le> 20000
   \<and> (0::rat) \<le> 1 / 4 \<and> (1 / 4 :: rat) \<le> 3 / 4 \<and> (3 / 4 :: rat) \<le> 1
   \<and> range_mapTo01 normalisableRange 1000 = 1 / 2
   \<and> range_mapTo01 normalisableRange 440 = 3 / 14
   \<and> range_mapTo01 normalisableRange 5000 = 23 / 38
   \<and> range_mapTo01 normalisableRange 440 \<le> range_mapTo01 normalisableRange 5000
   \<and> range_mapFrom01 normalisableRange (1 / 4) \<le> range_mapFrom01 normalisableRange (3 / 4)
   \<and> range_mapFrom01 normalisableRange (range_mapTo01 normalisableRange 5000) = 5000
   \<and> range_mapTo01 normalisableRange (range_mapFrom01 normalisableRange (3 / 4)) = 3 / 4"
  using centre_curve [of normalisableRange 440 5000 440 5000 "1 / 4" "3 / 4" 5000 "3 / 4"]
  by (simp add: normalisableRange_def KnobDisabled_valueMin_def KnobDisabled_valueMax_def)

section \<open>The rotation of the thumb, computed\<close>

text \<open>
  C9. For a position \<open>value01\<close> in the unit interval the angle of the thumb is
  \<open>angleMin + value01 * (angleMax - angleMin)\<close> with \<open>angleMin = -145\<close> and
  \<open>angleMax = 145\<close>, and it lies between \<open>-145\<close> and \<open>145\<close> degrees.
\<close>

theorem thumb_angle:
  assumes "0 \<le> value01 p" and "value01 p \<le> 1"
  shows "KnobBaseThumb_angle p = - 145 + value01 p * (145 - (- 145))
         \<and> - 145 \<le> KnobBaseThumb_angle p \<and> KnobBaseThumb_angle p \<le> 145"
proof -
  have eq: "KnobBaseThumb_angle p = - 145 + value01 p * 290"
    using assms by (simp add: KnobBaseThumb_angle_def mapFrom01Linear_inside)
  have "0 \<le> value01 p * 290" and "value01 p * 290 \<le> 290"
    using assms by simp_all
  with eq show ?thesis by simp
qed

theorem thumb_angle_witness:
  "(0::rat) \<le> value01 \<lparr>theme = Stone, value01 = 1 / 4\<rparr>
   \<and> value01 \<lparr>theme = Stone, value01 = 1 / 4\<rparr> \<le> 1
   \<and> KnobBaseThumb_angle \<lparr>theme = Stone, value01 = 1 / 4\<rparr> = - 145 / 2"
  using thumb_angle [of "\<lparr>theme = Stone, value01 = 1 / 4\<rparr>"] by simp

section \<open>Rounding and the reported value\<close>

text \<open>
  C10. The attribute \<open>aria-valuenow\<close> is the rounded raw value and \<open>aria-valuetext\<close>
  is the display function applied to the raw value as it is. The handler reports the
  new raw value clamped and not rounded, and replacing the rounding function by any other
  changes neither what the handler reports nor what a frame of the bound drag reports.
\<close>

theorem rounding_stays_out_of_values:
  "aria_valuenow (KnobHeadless p) = valueRawRoundFn p (valueRaw p)
   \<and> aria_valuetext (KnobHeadless p) = valueRawDisplayFn p (valueRaw p)
   \<and> dragHandler p delta =
       [clamp (orDefault (mapFrom01 p) mapFrom01Default
          (clamp01 (orDefault (mapTo01 p) mapTo01Default (valueRaw p) (valueMin p) (valueMax p)
             + dragDiff01 (dragSensitivity p) delta))
          (valueMin p) (valueMax p)) (valueMin p) (valueMax p)]
   \<and> dragHandler (p\<lparr>valueRawRoundFn := f\<rparr>) delta = dragHandler p delta
   \<and> bindDrag (p\<lparr>valueRawRoundFn := f\<rparr>) delta = bindDrag p delta"
  by (simp add: KnobHeadless_def Let_def bindDrag_eq dragHandler_eq)

end
